theory Spec2Isabelle
  imports Complex_Main "HOL-Library.Word"
begin

section \<open>Values shared by the painter and the map view\<close>

text \<open>
  A C++ \<open>float\<close>. Rounding to single precision and the sign of zero are not represented:
  a finite float stands for the real number it approximates. The three non-finite values
  are kept, because a division by a zero width or height yields them.
\<close>

datatype float = Float real | PosInf | NegInf | NaN

definition float_of_int :: "int \<Rightarrow> float" where
  "float_of_int n = Float (of_int n)"

text \<open>The C++ operator \<open>/\<close> on floats (IEEE 754 cases, zero taken as positive zero).\<close>

fun fdiv :: "float \<Rightarrow> float \<Rightarrow> float" where
  "fdiv (Float a) (Float b) =
     (if b = 0 then (if a = 0 then NaN else if 0 < a then PosInf else NegInf)
      else Float (a / b))"
| "fdiv (Float a) PosInf = Float 0"
| "fdiv (Float a) NegInf = Float 0"
| "fdiv PosInf (Float b) = (if 0 \<le> b then PosInf else NegInf)"
| "fdiv NegInf (Float b) = (if 0 \<le> b then NegInf else PosInf)"
| "fdiv a b = NaN"

text \<open>\<open>Size\<close>, \<open>Rect\<close>, \<open>Point\<close>, \<open>Color\<close> and \<open>Matrix3\<close> are declared in framework headers
  that are not part of the sources; they are kept as plain value records. A \<open>Rect\<close> is its
  two corners, both inside it, so that its width is \<open>x2 - x1 + 1\<close>; the accessors below are
  the ones the sources call, and they only shape the arguments of recorded calls. A
  \<open>Matrix3\<close> is its nine entries in row-major order, as the brace initialisers of the
  source list them.\<close>

record Size =
  width :: int
  height :: int

record Rect =
  x1 :: int
  y1 :: int
  x2 :: int
  y2 :: int

definition rect_isValid :: "Rect \<Rightarrow> bool" where
  "rect_isValid r = (x1 r \<le> x2 r \<and> y1 r \<le> y2 r)"

definition rect_left :: "Rect \<Rightarrow> int" where
  "rect_left r = x1 r"

definition rect_bottom :: "Rect \<Rightarrow> int" where
  "rect_bottom r = y2 r"

definition rect_width :: "Rect \<Rightarrow> int" where
  "rect_width r = x2 r - x1 r + 1"

definition rect_height :: "Rect \<Rightarrow> int" where
  "rect_height r = y2 r - y1 r + 1"

record Point =
  px :: int
  py :: int

record Color =
  rF :: float
  gF :: float
  bF :: float
  aF :: float

definition Color_white :: Color where
  "Color_white = \<lparr>rF = Float 1, gF = Float 1, bF = Float 1, aF = Float 1\<rparr>"

datatype Matrix3 = Matrix3 float float float float float float float float float

definition Matrix3_identity :: Matrix3 where
  "Matrix3_identity =
     Matrix3 (Float 1) (Float 0) (Float 0)
             (Float 0) (Float 1) (Float 0)
             (Float 0) (Float 0) (Float 1)"

section \<open>PainterOGL: the graphics state controller\<close>

datatype CompositionMode =
    CompositionMode_Normal
  | CompositionMode_Multiply
  | CompositionMode_Add
  | CompositionMode_Replace
  | CompositionMode_DestBlending
  | CompositionMode_Light

datatype BlendEquation =
    BlendEquation_Add
  | BlendEquation_Max
  | BlendEquation_Min
  | BlendEquation_Subtract
  | BlendEquation_Rever_Subtract

text \<open>The calls the painter issues to the GPU API, in the order it issues them.\<close>

datatype glfactor =
    GL_SRC_ALPHA | GL_ONE_MINUS_SRC_ALPHA | GL_ONE | GL_ZERO | GL_DST_COLOR
  | GL_ONE_MINUS_SRC_COLOR | GL_ONE_MINUS_DST_ALPHA | GL_DST_ALPHA | GL_SRC_COLOR

datatype glcall =
    glClearColor float float float float
  | glClear_COLOR_BUFFER_BIT
  | glBlendFuncSeparate glfactor glfactor glfactor glfactor
  | glBlendFunc glfactor glfactor
  | glBlendEquation nat
  | glEnable_SCISSOR_TEST
  | glDisable_SCISSOR_TEST
  | glScissor int int int int
  | glBindTexture nat
  | glColorMask bool bool bool bool
  | glViewport int int int int

text \<open>A \<open>Texture\<close> object, as much of it as the painter reads, and a pointer to one:
  \<open>None\<close> is \<open>nullptr\<close>, \<open>Some a\<close> the object at address \<open>a\<close>. Pointers are compared by
  address, as the source does.\<close>

record Texture =
  getId :: nat
  getTransformMatrix :: Matrix3

type_synonym texture_ptr = "nat option"
type_synonym shader_ptr = "nat option"

text \<open>What the painter reads from outside itself: the capabilities of \<open>g_graphics\<close>,
  whether \<open>g_painter\<close> is this painter, and the texture objects behind the pointers.\<close>

record graphics =
  canUseBlendFuncSeparate :: bool
  canUseBlendEquation :: bool
  g_painter_is_this :: bool
  texture_at :: "nat \<Rightarrow> Texture"

record PainterState =
  resolution :: Size
  transformMatrix :: Matrix3
  projectionMatrix :: Matrix3
  textureMatrix :: Matrix3
  color :: Color
  opacity :: float
  compositionMode :: CompositionMode
  blendEquation :: BlendEquation
  clipRect :: Rect
  texture :: texture_ptr
  shaderProgram :: shader_ptr
  alphaWriting :: bool

text \<open>The painter object. \<open>m_olderStates\<close> is the array of ten snapshots, indexed from 0;
  \<open>gl_calls\<close> is the log of the GPU calls issued so far.\<close>

record painter =
  m_resolution :: Size
  m_transformMatrix :: Matrix3
  m_projectionMatrix :: Matrix3
  m_textureMatrix :: Matrix3
  m_color :: Color
  m_opacity :: float
  m_compositionMode :: CompositionMode
  m_blendEquation :: BlendEquation
  m_clipRect :: Rect
  m_texture :: texture_ptr
  m_shaderProgram :: shader_ptr
  m_alphaWriting :: bool
  m_glTextureId :: nat
  m_oldStateIndex :: int
  m_olderStates :: "nat \<Rightarrow> PainterState"
  m_transformMatrixStack :: "Matrix3 list"
  gl_calls :: "glcall list"

text \<open>How a call of the painter can end other than by returning: a failed \<open>assert\<close>
  (assertions are taken as enabled), or an access to \<open>m_olderStates\<close> outside 0..9, which
  the source performs unchecked.\<close>

datatype fault = AssertionFailed | OutOfBoundsAccess int

definition gl :: "glcall \<Rightarrow> painter \<Rightarrow> painter" where
  "gl c p = p\<lparr>gl_calls := gl_calls p @ [c]\<rparr>"

subsection \<open>The GPU updates\<close>

definition updateGlTexture :: "painter \<Rightarrow> painter" where
  "updateGlTexture p =
     (if m_glTextureId p \<noteq> 0 then gl (glBindTexture (m_glTextureId p)) p else p)"

definition updateGlCompositionMode :: "graphics \<Rightarrow> painter \<Rightarrow> painter" where
  "updateGlCompositionMode g p =
     (case m_compositionMode p of
        CompositionMode_Normal \<Rightarrow>
          (if canUseBlendFuncSeparate g
           then gl (glBlendFuncSeparate GL_SRC_ALPHA GL_ONE_MINUS_SRC_ALPHA GL_ONE GL_ONE) p
           else gl (glBlendFunc GL_SRC_ALPHA GL_ONE_MINUS_SRC_ALPHA) p)
      | CompositionMode_Multiply \<Rightarrow> gl (glBlendFunc GL_DST_COLOR GL_ONE_MINUS_SRC_ALPHA) p
      | CompositionMode_Add \<Rightarrow> gl (glBlendFunc GL_ONE_MINUS_SRC_COLOR GL_ONE_MINUS_SRC_COLOR) p
      | CompositionMode_Replace \<Rightarrow> gl (glBlendFunc GL_ONE GL_ZERO) p
      | CompositionMode_DestBlending \<Rightarrow> gl (glBlendFunc GL_ONE_MINUS_DST_ALPHA GL_DST_ALPHA) p
      | CompositionMode_Light \<Rightarrow> gl (glBlendFunc GL_ZERO GL_SRC_COLOR) p)"

definition updateGlBlendEquation :: "graphics \<Rightarrow> painter \<Rightarrow> painter" where
  "updateGlBlendEquation g p =
     (if \<not> canUseBlendEquation g then p
      else if m_blendEquation p = BlendEquation_Add then gl (glBlendEquation 0x8006) p
      else if m_blendEquation p = BlendEquation_Max then gl (glBlendEquation 0x8008) p
      else if m_blendEquation p = BlendEquation_Min then gl (glBlendEquation 0x8007) p
      else if m_blendEquation p = BlendEquation_Subtract then gl (glBlendEquation 0x800A) p
      else if m_blendEquation p = BlendEquation_Rever_Subtract then gl (glBlendEquation 0x800B) p
      else p)"

definition updateGlClipRect :: "painter \<Rightarrow> painter" where
  "updateGlClipRect p =
     (if rect_isValid (m_clipRect p)
      then gl (glScissor (rect_left (m_clipRect p))
                 (height (m_resolution p) - rect_bottom (m_clipRect p) - 1)
                 (rect_width (m_clipRect p)) (rect_height (m_clipRect p)))
             (gl glEnable_SCISSOR_TEST p)
      else gl glDisable_SCISSOR_TEST
             (gl (glScissor 0 0 (width (m_resolution p)) (height (m_resolution p))) p))"

definition updateGlAlphaWriting :: "painter \<Rightarrow> painter" where
  "updateGlAlphaWriting p =
     (if m_alphaWriting p then gl (glColorMask True True True True) p
      else gl (glColorMask True True True False) p)"

definition updateGlViewport :: "painter \<Rightarrow> painter" where
  "updateGlViewport p =
     gl (glViewport 0 0 (width (m_resolution p)) (height (m_resolution p))) p"

subsection \<open>The setters\<close>

text \<open>Modelled from the spec: the setters \<open>setColor\<close>, \<open>setOpacity\<close>, \<open>setShaderProgram\<close>,
  \<open>setTransformMatrix\<close>, \<open>setProjectionMatrix\<close> and \<open>setTextureMatrix\<close> are defined inline
  in the painter headers, which are not part of the sources. They have no GPU state of
  their own to change, so each one stores its argument in the field it is named after.\<close>

definition setColor :: "painter \<Rightarrow> Color \<Rightarrow> painter" where
  "setColor p c = p\<lparr>m_color := c\<rparr>"

definition setOpacity :: "painter \<Rightarrow> float \<Rightarrow> painter" where
  "setOpacity p a = p\<lparr>m_opacity := a\<rparr>"

definition setShaderProgram :: "painter \<Rightarrow> shader_ptr \<Rightarrow> painter" where
  "setShaderProgram p s = p\<lparr>m_shaderProgram := s\<rparr>"

definition setTransformMatrix :: "painter \<Rightarrow> Matrix3 \<Rightarrow> painter" where
  "setTransformMatrix p m = p\<lparr>m_transformMatrix := m\<rparr>"

definition setProjectionMatrix :: "painter \<Rightarrow> Matrix3 \<Rightarrow> painter" where
  "setProjectionMatrix p m = p\<lparr>m_projectionMatrix := m\<rparr>"

definition setTextureMatrix :: "painter \<Rightarrow> Matrix3 \<Rightarrow> painter" where
  "setTextureMatrix p m = p\<lparr>m_textureMatrix := m\<rparr>"

definition setCompositionMode :: "graphics \<Rightarrow> painter \<Rightarrow> CompositionMode \<Rightarrow> painter" where
  "setCompositionMode g p compositionMode' =
     (if m_compositionMode p = compositionMode' then p
      else updateGlCompositionMode g (p\<lparr>m_compositionMode := compositionMode'\<rparr>))"

definition setBlendEquation :: "graphics \<Rightarrow> painter \<Rightarrow> BlendEquation \<Rightarrow> painter" where
  "setBlendEquation g p blendEquation' =
     (if m_blendEquation p = blendEquation' then p
      else updateGlBlendEquation g (p\<lparr>m_blendEquation := blendEquation'\<rparr>))"

definition setClipRect :: "painter \<Rightarrow> Rect \<Rightarrow> painter" where
  "setClipRect p clipRect' =
     (if m_clipRect p = clipRect' then p
      else updateGlClipRect (p\<lparr>m_clipRect := clipRect'\<rparr>))"

definition setTexture :: "graphics \<Rightarrow> painter \<Rightarrow> texture_ptr \<Rightarrow> painter" where
  "setTexture g p texture' =
     (if m_texture p = texture' then p
      else
        let p1 = p\<lparr>m_texture := texture'\<rparr>;
            p2 = (case texture' of
                    Some a \<Rightarrow> setTextureMatrix p1 (getTransformMatrix (texture_at g a))
                  | None \<Rightarrow> p1);
            glTextureId = (case texture' of Some a \<Rightarrow> getId (texture_at g a) | None \<Rightarrow> 0)
        in if m_glTextureId p2 \<noteq> glTextureId
           then updateGlTexture (p2\<lparr>m_glTextureId := glTextureId\<rparr>)
           else p2)"

definition setAlphaWriting :: "painter \<Rightarrow> bool \<Rightarrow> painter" where
  "setAlphaWriting p enable =
     (if m_alphaWriting p = enable then p
      else updateGlAlphaWriting (p\<lparr>m_alphaWriting := enable\<rparr>))"

definition setResolution :: "graphics \<Rightarrow> painter \<Rightarrow> Size \<Rightarrow> painter" where
  "setResolution g p resolution' =
     (if resolution' = m_resolution p then p
      else
        let projectionMatrix' =
              Matrix3 (fdiv (Float 2) (float_of_int (width resolution'))) (Float 0) (Float 0)
                      (Float 0) (fdiv (Float (- 2)) (float_of_int (height resolution'))) (Float 0)
                      (Float (- 1)) (Float 1) (Float 1);
            p1 = p\<lparr>m_resolution := resolution'\<rparr>;
            p2 = setProjectionMatrix p1 projectionMatrix'
        in if g_painter_is_this g then updateGlViewport p2 else p2)"

subsection \<open>Snapshots\<close>

text \<open>\<open>getCurrentState\<close> starts from a default-constructed local \<open>PainterState\<close> and
  assigns eleven of its twelve fields. The declaration of \<open>PainterState\<close> is not part of the
  sources, so the default-constructed value is the parameter \<open>fresh\<close>.\<close>

definition getCurrentState :: "PainterState \<Rightarrow> painter \<Rightarrow> PainterState" where
  "getCurrentState fresh p =
     fresh\<lparr>resolution := m_resolution p,
           transformMatrix := m_transformMatrix p,
           projectionMatrix := m_projectionMatrix p,
           textureMatrix := m_textureMatrix p,
           color := m_color p,
           opacity := m_opacity p,
           compositionMode := m_compositionMode p,
           blendEquation := m_blendEquation p,
           clipRect := m_clipRect p,
           shaderProgram := m_shaderProgram p,
           alphaWriting := m_alphaWriting p\<rparr>"

definition saveState :: "PainterState \<Rightarrow> painter \<Rightarrow> fault + painter" where
  "saveState fresh p =
     (if \<not> m_oldStateIndex p < 10 then Inl AssertionFailed
      else if m_oldStateIndex p < 0 then Inl (OutOfBoundsAccess (m_oldStateIndex p))
      else Inr (p\<lparr>m_olderStates := (m_olderStates p)(nat (m_oldStateIndex p) := getCurrentState fresh p),
                 m_oldStateIndex := m_oldStateIndex p + 1\<rparr>))"

definition executeState :: "graphics \<Rightarrow> painter \<Rightarrow> PainterState \<Rightarrow> painter" where
  "executeState g p state =
     (let p1 = setColor p (color state);
          p2 = setOpacity p1 (opacity state);
          p3 = setCompositionMode g p2 (compositionMode state);
          p4 = setBlendEquation g p3 (blendEquation state);
          p5 = setClipRect p4 (clipRect state);
          p6 = setShaderProgram p5 (shaderProgram state);
          p7 = setAlphaWriting p6 (alphaWriting state);
          p8 = setTransformMatrix p7 (transformMatrix state)
      in setTexture g p8 (texture state))"

definition restoreSavedState :: "graphics \<Rightarrow> painter \<Rightarrow> fault + painter" where
  "restoreSavedState g p =
     (let i = m_oldStateIndex p - 1;
          p1 = p\<lparr>m_oldStateIndex := i\<rparr>
      in if i < 0 \<or> 10 \<le> i then Inl (OutOfBoundsAccess i)
         else
           let state = m_olderStates p1 (nat i);
               p2 = setResolution g p1 (resolution state);
               p3 = setTransformMatrix p2 (transformMatrix state);
               p4 = setTextureMatrix p3 (textureMatrix state)
           in Inr (executeState g p4 state))"

definition clearRect :: "painter \<Rightarrow> Color \<Rightarrow> Rect \<Rightarrow> painter" where
  "clearRect p c rect =
     (let oldClipRect = m_clipRect p;
          p1 = setClipRect p rect;
          p2 = gl (glClearColor (rF c) (gF c) (bF c) (aF c)) p1;
          p3 = gl glClear_COLOR_BUFFER_BIT p2
      in setClipRect p3 oldClipRect)"

subsection \<open>The transform-matrix stack\<close>

definition pushTransformMatrix :: "painter \<Rightarrow> fault + painter" where
  "pushTransformMatrix p =
     (let p1 = p\<lparr>m_transformMatrixStack := m_transformMatrixStack p @ [m_transformMatrix p]\<rparr>
      in if length (m_transformMatrixStack p1) < 100 then Inr p1 else Inl AssertionFailed)"

definition popTransformMatrix :: "painter \<Rightarrow> fault + painter" where
  "popTransformMatrix p =
     (if 0 < length (m_transformMatrixStack p)
      then Inr ((setTransformMatrix p (last (m_transformMatrixStack p)))
                  \<lparr>m_transformMatrixStack := butlast (m_transformMatrixStack p)\<rparr>)
      else Inl AssertionFailed)"

subsection \<open>Construction\<close>

text \<open>The constructor assigns the fields below and calls \<open>setResolution\<close> with the window
  size. The members it does not mention are default-constructed; their defaults come from
  declarations outside the sources and are the parameter \<open>members\<close>.\<close>

definition PainterOGL :: "graphics \<Rightarrow> painter \<Rightarrow> Size \<Rightarrow> painter" where
  "PainterOGL g members windowSize =
     setResolution g
       (members\<lparr>m_glTextureId := 0,
                m_oldStateIndex := 0,
                m_color := Color_white,
                m_opacity := Float 1,
                m_compositionMode := CompositionMode_Normal,
                m_blendEquation := BlendEquation_Add,
                m_shaderProgram := None,
                m_texture := None,
                m_alphaWriting := False\<rparr>)
       windowSize"

section \<open>MapViewPainter: the floor compositor and the tile visibility filter\<close>

subsection \<open>Map data\<close>

text \<open>A map coordinate. The fields are C++ integers of at least 16 bits; their arithmetic is
  taken without overflow.\<close>

record Position =
  pos_x :: int
  pos_y :: int
  pos_z :: int

text \<open>Modelled from the spec: \<open>Position::translated\<close> and \<open>Position::translatedToDirections\<close>
  are declared in a header that is not part of the sources. The first "projects the tile
  position by (dz, dz)": it moves the position by \<open>(dx, dy)\<close> on its floor. The second is
  called with South and East only and yields the two neighbours "south/east" of the
  position, in that order.\<close>

definition translated :: "Position \<Rightarrow> int \<Rightarrow> int \<Rightarrow> Position" where
  "translated p dx dy = p\<lparr>pos_x := pos_x p + dx, pos_y := pos_y p + dy\<rparr>"

definition translatedToDirections_South_East :: "Position \<Rightarrow> Position list" where
  "translatedToDirections_South_East p = [translated p 0 1, translated p 1 0]"

record AwareRange =
  range_top :: int
  range_right :: int
  range_bottom :: int
  range_left :: int

text \<open>A ground item, a tile, and the other things the painter draws, as much of each as
  the painter asks.\<close>

record Item =
  isTranslucent :: bool
  isTopGround :: bool

record Tile =
  getPosition :: Position
  getGround :: "Item option"
  hasGround :: bool
  tile_isTopGround :: bool
  hasWideThings :: bool
  hasTallThings :: bool
  hasDisplacement :: bool
  hasLight :: bool

record Thing =
  thing_getId :: nat
  thing_getPosition :: Position
  messageMode_is_NONE :: bool

record LightView =
  isDark :: bool

record RectCache =
  rc_rect :: Rect
  srcRect :: Rect
  drawOffset :: Point
  horizontalStretchFactor :: float
  verticalStretchFactor :: float

text \<open>The map view. \<open>getCameraPosition\<close> is what the method of that name returns during the
  frame; \<open>m_cachedVisibleTiles\<close> is the per-floor cache, indexed by the floor; the floor bounds
  are floor indices, hence unsigned.\<close>

record MapView =
  m_mustUpdateVisibleTilesCache :: bool
  m_rectCache :: RectCache
  m_rectDimension :: Rect
  getCameraPosition :: Position
  m_drawLights :: bool
  m_lightView :: "LightView option"
  m_floorMin :: nat
  m_floorMax :: nat
  m_cachedVisibleTiles :: "int \<Rightarrow> Tile list"
  m_viewport :: AwareRange
  m_tileSize :: int
  m_drawViewportEdge :: bool
  m_crosshairTexture :: texture_ptr
  m_crosshairEffect :: "Thing option"
  m_mousePosition :: Position
  m_drawNames :: bool
  m_drawHealthBars :: bool
  m_drawManaBar :: bool
  m_drawTexts :: bool
  m_visibleCreatures :: "Thing list"

datatype DrawType =
    DRAWTYPE_MAP
  | DRAWTYPE_LIGHT
  | DRAWTYPE_CREATURE_INFORMATION
  | DRAWTYPE_STATIC_TEXT
  | DRAWTYPE_DYNAMIC_TEXT

text \<open>The collaborators of the painter that live outside the sources: methods of the map
  view that are defined elsewhere, the draw pool (\<open>drawUp\<close> answers whether the layer is to
  be drawn this frame), the map store, and \<open>Position::isValid\<close>.\<close>

record world =
  updateVisibleTilesCache :: "MapView \<Rightarrow> MapView"
  calcFramebufferSource :: "MapView \<Rightarrow> Size \<Rightarrow> Rect"
  transformPositionTo2D :: "MapView \<Rightarrow> Position \<Rightarrow> Position \<Rightarrow> Point"
  drawUp :: "DrawType \<Rightarrow> bool"
  getTile :: "Position \<Rightarrow> Tile option"
  getFloorMissiles :: "int \<Rightarrow> Thing list"
  getStaticTexts :: "Thing list"
  getAnimatedTexts :: "Thing list"
  isValid :: "Position \<Rightarrow> bool"

text \<open>A screen point of the text overlay: the point \<open>p\<close> whose coordinates are multiplied by
  the two float stretch factors and then moved by \<open>topLeft\<close>. The float product and its
  truncation are left unevaluated.\<close>

datatype ScreenPoint = Stretched Point float float Point

text \<open>What a frame does, as the sequence of calls that leave the painter: the hooks of the
  map view, the calls on the light view, and the draw calls. A draw call is recorded with
  the thing and the point it is given; the scale factor, the update flags and the light
  view are the same in every call of a frame.\<close>

datatype event =
    LightView_setFloor int
  | LightView_setShade Point
  | onFloorDrawingStart int
  | onFloorDrawingEnd int
  | TilePainter_drawStart Tile
  | TilePainter_drawGround Tile Point
  | TilePainter_drawBottom Tile Point
  | TilePainter_drawTop Tile Point
  | TilePainter_drawEnd Tile
  | ThingPainter_draw Thing Point
  | Painter_setOpacity float
  | Painter_resetOpacity
  | DrawPool_addTexturedRect Rect texture_ptr
  | LightViewPainter_draw
  | CreaturePainter_drawInformation Thing Point bool bool bool
  | ThingPainter_drawText Thing ScreenPoint

definition rect_size :: "Rect \<Rightarrow> Size" where
  "rect_size r = \<lparr>width = rect_width r, height = rect_height r\<rparr>"

definition rect_topLeft :: "Rect \<Rightarrow> Point" where
  "rect_topLeft r = \<lparr>px = x1 r, py = y1 r\<rparr>"

definition Rect_of :: "Point \<Rightarrow> int \<Rightarrow> int \<Rightarrow> Rect" where
  "Rect_of p w h = \<lparr>x1 = px p, y1 = py p, x2 = px p + w - 1, y2 = py p + h - 1\<rparr>"

definition point_minus_scalar :: "Point \<Rightarrow> int \<Rightarrow> Point" where
  "point_minus_scalar p n = \<lparr>px = px p - n, py = py p - n\<rparr>"

definition point_minus :: "Point \<Rightarrow> Point \<Rightarrow> Point" where
  "point_minus p q = \<lparr>px = px p - px q, py = py p - py q\<rparr>"

subsection \<open>canRenderTile\<close>

text \<open>The position a tile is tested at: \<open>dz\<close> is an \<open>int8\<close>, so the difference of the two
  floors is narrowed to eight bits, and the tile position is moved by \<open>(dz, dz)\<close>.\<close>

definition checkPos_of :: "Position \<Rightarrow> Position \<Rightarrow> Position" where
  "checkPos_of cameraPosition tilePos =
     (let dz = sint (word_of_int (pos_z tilePos - pos_z cameraPosition) :: 8 word)
      in translated tilePos dz dz)"

definition canRenderTile :: "MapView \<Rightarrow> Tile \<Rightarrow> AwareRange \<Rightarrow> LightView option \<Rightarrow> bool" where
  "canRenderTile mapView tile viewPort lightView =
     (if m_drawViewportEdge mapView \<or>
         (case lightView of Some l \<Rightarrow> isDark l \<and> hasLight tile | None \<Rightarrow> False)
      then True
      else
        let cameraPosition = getCameraPosition mapView;
            tilePos = getPosition tile;
            checkPos = checkPos_of cameraPosition tilePos
        in
          if (pos_x cameraPosition - pos_x checkPos \<ge> range_left viewPort) \<or>
             (pos_x checkPos - pos_x cameraPosition = range_right viewPort \<and>
                \<not> hasWideThings tile \<and> \<not> hasDisplacement tile)
          then False
          else if (pos_y cameraPosition - pos_y checkPos \<ge> range_top viewPort) \<or>
             (pos_y checkPos - pos_y cameraPosition = range_bottom viewPort \<and>
                \<not> hasTallThings tile \<and> \<not> hasDisplacement tile)
          then False
          else if (pos_x checkPos - pos_x cameraPosition > range_right viewPort \<and>
                (\<not> hasWideThings tile \<or> \<not> hasDisplacement tile)) \<or>
             (pos_y checkPos - pos_y cameraPosition > range_bottom viewPort)
          then False
          else True)"

subsection \<open>draw\<close>

text \<open>The search among the south and east neighbours of a top-ground tile: the first one
  that has ground and is not top ground marks a shade and ends the search.\<close>

fun seam_shade :: "world \<Rightarrow> Point \<Rightarrow> Position list \<Rightarrow> event list" where
  "seam_shade w pos2D [] = []"
| "seam_shade w pos2D (pos # rest) =
     (case getTile w pos of
        Some nextDownTile \<Rightarrow>
          (if hasGround nextDownTile \<and> \<not> tile_isTopGround nextDownTile
           then [LightView_setShade pos2D]
           else seam_shade w pos2D rest)
      | None \<Rightarrow> seam_shade w pos2D rest)"

definition shade_tile :: "world \<Rightarrow> MapView \<Rightarrow> Position \<Rightarrow> Tile \<Rightarrow> event list" where
  "shade_tile w mapView cameraPosition tile =
     (case getGround tile of
        None \<Rightarrow> []
      | Some ground \<Rightarrow>
          if isTranslucent ground then []
          else
            let pos2D = transformPositionTo2D w mapView (getPosition tile) cameraPosition
            in if isTopGround ground
               then seam_shade w pos2D (translatedToDirections_South_East (getPosition tile))
                    @ [LightView_setShade (point_minus_scalar pos2D (m_tileSize mapView))]
               else [LightView_setShade pos2D])"

definition draw_ground_pass ::
  "world \<Rightarrow> MapView \<Rightarrow> Position \<Rightarrow> LightView option \<Rightarrow> Tile \<Rightarrow> event list" where
  "draw_ground_pass w mapView cameraPosition lightView tile =
     (if \<not> canRenderTile mapView tile (m_viewport mapView) lightView then []
      else [TilePainter_drawStart tile,
            TilePainter_drawGround tile
              (transformPositionTo2D w mapView (getPosition tile) cameraPosition),
            TilePainter_drawEnd tile])"

definition draw_items_pass ::
  "world \<Rightarrow> MapView \<Rightarrow> Position \<Rightarrow> LightView option \<Rightarrow> Tile \<Rightarrow> event list" where
  "draw_items_pass w mapView cameraPosition lightView tile =
     (if \<not> canRenderTile mapView tile (m_viewport mapView) lightView then []
      else [TilePainter_drawStart tile,
            TilePainter_drawBottom tile
              (transformPositionTo2D w mapView (getPosition tile) cameraPosition),
            TilePainter_drawTop tile
              (transformPositionTo2D w mapView (getPosition tile) cameraPosition),
            TilePainter_drawEnd tile])"

text \<open>The body of the floor loop for the floor \<open>z\<close>, an \<open>int_fast8_t\<close> (eight bits wide).\<close>

definition draw_floor ::
  "world \<Rightarrow> MapView \<Rightarrow> Position \<Rightarrow> LightView option \<Rightarrow> 8 word \<Rightarrow> event list" where
  "draw_floor w mapView cameraPosition lightView z =
     (case lightView of
        None \<Rightarrow> []
      | Some l \<Rightarrow>
          let nextFloor = z - 1
          in if sint nextFloor \<ge> int (m_floorMin mapView)
             then LightView_setFloor (sint nextFloor) #
                  concat (map (shade_tile w mapView cameraPosition)
                            (m_cachedVisibleTiles mapView (sint nextFloor)))
             else [])
     @ [onFloorDrawingStart (sint z)]
     @ (case lightView of None \<Rightarrow> [] | Some l \<Rightarrow> [LightView_setFloor (sint z)])
     @ concat (map (draw_ground_pass w mapView cameraPosition lightView)
                 (m_cachedVisibleTiles mapView (sint z)))
     @ concat (map (draw_items_pass w mapView cameraPosition lightView)
                 (m_cachedVisibleTiles mapView (sint z)))
     @ map (\<lambda>missile. ThingPainter_draw missile
              (transformPositionTo2D w mapView (thing_getPosition missile) cameraPosition))
         (getFloorMissiles w (sint z))
     @ [onFloorDrawingEnd (sint z)]"

text \<open>The loop counter \<open>z\<close> is decremented only while it is at least \<open>m_floorMin\<close>, hence
  not negative, so the decrement never wraps.\<close>

lemma sint_pred_8: "0 \<le> sint (z :: 8 word) \<Longrightarrow> sint (z - 1) = sint z - 1"
proof -
  assume a: "0 \<le> sint z"
  have b: "sint z < 2 ^ (LENGTH(8) - 1)" by (rule sint_lt)
  have "sint (z - 1) = signed_take_bit (LENGTH(8) - 1) (sint z - sint (1 :: 8 word))"
    by (rule sint_word_ariths)
  also have "\<dots> = signed_take_bit 7 (sint z - 1)" by simp
  also have "\<dots> = sint z - 1"
    using a b by (intro signed_take_bit_int_eq_self) simp_all
  finally show ?thesis .
qed

text \<open>The loop \<open>for(int_fast8_t z = m_floorMax; z >= m_floorMin; --z)\<close>, entered with the
  current value of \<open>z\<close>.\<close>

function draw_floors ::
  "world \<Rightarrow> MapView \<Rightarrow> Position \<Rightarrow> LightView option \<Rightarrow> 8 word \<Rightarrow> event list" where
  "draw_floors w mapView cameraPosition lightView z =
     (if sint z \<ge> int (m_floorMin mapView)
      then draw_floor w mapView cameraPosition lightView z
           @ draw_floors w mapView cameraPosition lightView (z - 1)
      else [])"
  by pat_completeness auto
termination
  by (relation "measure (\<lambda>(w, mapView, cameraPosition, lightView, z). nat (sint z + 1))")
     (auto simp: sint_pred_8)

declare draw_floors.simps [simp del]

definition draw_crosshair :: "world \<Rightarrow> MapView \<Rightarrow> Position \<Rightarrow> event list" where
  "draw_crosshair w mapView cameraPosition =
     (if m_crosshairTexture mapView \<noteq> None \<and> isValid w (m_mousePosition mapView)
      then
        let point = transformPositionTo2D w mapView (m_mousePosition mapView) cameraPosition
        in (case m_crosshairEffect mapView of
              Some effect \<Rightarrow>
                (if thing_getId effect > 0
                 then [ThingPainter_draw effect point, Painter_setOpacity (Float (65 / 100))]
                 else [])
            | None \<Rightarrow> [])
           @ [DrawPool_addTexturedRect
                (Rect_of point (m_tileSize mapView) (m_tileSize mapView))
                (m_crosshairTexture mapView),
              Painter_resetOpacity]
      else [])"

text \<open>The three draw flags are distinct bits of \<open>flags\<close>; they are passed on as the three
  booleans they are computed from.\<close>

definition drawCreatureInformation :: "world \<Rightarrow> MapView \<Rightarrow> event list" where
  "drawCreatureInformation w mapView =
     (if \<not> m_drawNames mapView \<and> \<not> m_drawHealthBars mapView \<and> \<not> m_drawManaBar mapView
      then []
      else if drawUp w DRAWTYPE_CREATURE_INFORMATION
      then
        let cameraPosition = getCameraPosition mapView
        in map (\<lambda>creature. CreaturePainter_drawInformation creature
                   (transformPositionTo2D w mapView (thing_getPosition creature) cameraPosition)
                   (m_drawNames mapView) (m_drawHealthBars mapView) (m_drawManaBar mapView))
             (m_visibleCreatures mapView)
      else [])"

definition text_point :: "world \<Rightarrow> MapView \<Rightarrow> Position \<Rightarrow> Position \<Rightarrow> ScreenPoint" where
  "text_point w mapView pos cameraPosition =
     Stretched
       (point_minus (transformPositionTo2D w mapView pos cameraPosition)
          (drawOffset (m_rectCache mapView)))
       (horizontalStretchFactor (m_rectCache mapView))
       (verticalStretchFactor (m_rectCache mapView))
       (rect_topLeft (rc_rect (m_rectCache mapView)))"

definition drawText :: "world \<Rightarrow> MapView \<Rightarrow> event list" where
  "drawText w mapView =
     (if \<not> m_drawTexts mapView then []
      else
        let cameraPosition = getCameraPosition mapView
        in (if getStaticTexts w \<noteq> [] \<and> drawUp w DRAWTYPE_STATIC_TEXT
            then concat (map (\<lambda>staticText.
                   let pos = thing_getPosition staticText
                   in if pos_z pos \<noteq> pos_z cameraPosition \<and> messageMode_is_NONE staticText
                      then []
                      else [ThingPainter_drawText staticText
                              (text_point w mapView pos cameraPosition)])
                 (getStaticTexts w))
            else [])
           @ (if getAnimatedTexts w \<noteq> [] \<and> drawUp w DRAWTYPE_DYNAMIC_TEXT
              then concat (map (\<lambda>animatedText.
                     let pos = thing_getPosition animatedText
                     in if pos_z pos \<noteq> pos_z cameraPosition
                        then []
                        else [ThingPainter_drawText animatedText
                                (text_point w mapView pos cameraPosition)])
                   (getAnimatedTexts w))
              else []))"

definition refresh_visibleTilesCache :: "world \<Rightarrow> MapView \<Rightarrow> MapView" where
  "refresh_visibleTilesCache w mapView =
     (if m_mustUpdateVisibleTilesCache mapView then updateVisibleTilesCache w mapView
      else mapView)"

definition refresh_rectCache :: "world \<Rightarrow> MapView \<Rightarrow> Rect \<Rightarrow> MapView" where
  "refresh_rectCache w mapView rect =
     (if rc_rect (m_rectCache mapView) \<noteq> rect
      then
        let mv1 = mapView\<lparr>m_rectCache := (m_rectCache mapView)\<lparr>rc_rect := rect\<rparr>\<rparr>;
            src = calcFramebufferSource w mv1 (rect_size rect)
        in mv1\<lparr>m_rectCache :=
                 \<lparr>rc_rect = rect,
                  srcRect = src,
                  drawOffset = rect_topLeft src,
                  horizontalStretchFactor =
                    fdiv (float_of_int (rect_width rect)) (float_of_int (rect_width src)),
                  verticalStretchFactor =
                    fdiv (float_of_int (rect_height rect)) (float_of_int (rect_height src))\<rparr>\<rparr>
      else mapView)"

text \<open>\<open>draw\<close> returns the map view as the frame leaves it and the calls of the frame. The
  test of \<open>cameraPosition.isValid()\<close> is commented out in the source, so no step of the
  frame depends on it.\<close>

definition draw :: "world \<Rightarrow> MapView \<Rightarrow> Rect \<Rightarrow> MapView \<times> event list" where
  "draw w mapView0 rect =
     (let mapView = refresh_rectCache w (refresh_visibleTilesCache w mapView0) rect;
          cameraPosition = getCameraPosition mapView
      in (mapView,
          (if drawUp w DRAWTYPE_MAP
           then
             let lightView = (if m_drawLights mapView then m_lightView mapView else None)
             in draw_floors w mapView cameraPosition lightView (of_nat (m_floorMax mapView))
                @ draw_crosshair w mapView cameraPosition
           else [])
          @ (if m_drawLights mapView \<and> drawUp w DRAWTYPE_LIGHT
             then [LightViewPainter_draw] else [])
          @ drawCreatureInformation w mapView
          @ drawText w mapView))"

text \<open>The floors a sequence of calls starts, in the order it starts them.\<close>

fun floor_started :: "event \<Rightarrow> int list" where
  "floor_started (onFloorDrawingStart z) = [z]"
| "floor_started e = []"

definition floors_visited :: "event list \<Rightarrow> int list" where
  "floors_visited es = concat (map floor_started es)"


section \<open>Call sequences and example data\<close>

text \<open>Sequencing of calls that can fail: the first fault ends the sequence.\<close>

definition and_then :: "fault + 'a \<Rightarrow> ('a \<Rightarrow> fault + 'b) \<Rightarrow> fault + 'b" where
  "and_then r f = (case r of Inl e \<Rightarrow> Inl e | Inr a \<Rightarrow> f a)"

text \<open>A client that pushes the transform matrix once per element of \<open>ms\<close>, setting the
  transform to that element after each push, and a client that pops \<open>n\<close> times.\<close>

fun pushes :: "Matrix3 list \<Rightarrow> painter \<Rightarrow> fault + painter" where
  "pushes [] p = Inr p"
| "pushes (m # ms) p =
     and_then (pushTransformMatrix p) (\<lambda>q. pushes ms (setTransformMatrix q m))"

fun pops :: "nat \<Rightarrow> painter \<Rightarrow> fault + painter" where
  "pops 0 p = Inr p"
| "pops (Suc n) p = and_then (popTransformMatrix p) (pops n)"

text \<open>A painter as the constructor leaves it for an 800 x 600 window, with the defaults of
  the engine for the members the constructor does not assign.\<close>

definition example_graphics :: graphics where
  "example_graphics =
     \<lparr>canUseBlendFuncSeparate = True, canUseBlendEquation = True, g_painter_is_this = True,
      texture_at = (\<lambda>a. \<lparr>getId = a + 1, getTransformMatrix = Matrix3_identity\<rparr>)\<rparr>"

definition example_fresh :: PainterState where
  "example_fresh =
     \<lparr>resolution = \<lparr>width = - 1, height = - 1\<rparr>,
      transformMatrix = Matrix3_identity,
      projectionMatrix = Matrix3_identity,
      textureMatrix = Matrix3_identity,
      color = Color_white,
      opacity = Float 1,
      compositionMode = CompositionMode_Normal,
      blendEquation = BlendEquation_Add,
      clipRect = \<lparr>x1 = 0, y1 = 0, x2 = - 1, y2 = - 1\<rparr>,
      texture = None,
      shaderProgram = None,
      alphaWriting = False\<rparr>"

definition example_members :: painter where
  "example_members =
     \<lparr>m_resolution = \<lparr>width = - 1, height = - 1\<rparr>,
      m_transformMatrix = Matrix3_identity,
      m_projectionMatrix = Matrix3_identity,
      m_textureMatrix = Matrix3_identity,
      m_color = Color_white,
      m_opacity = Float 1,
      m_compositionMode = CompositionMode_Normal,
      m_blendEquation = BlendEquation_Add,
      m_clipRect = \<lparr>x1 = 0, y1 = 0, x2 = - 1, y2 = - 1\<rparr>,
      m_texture = None,
      m_shaderProgram = None,
      m_alphaWriting = False,
      m_glTextureId = 0,
      m_oldStateIndex = 0,
      m_olderStates = (\<lambda>i. example_fresh),
      m_transformMatrixStack = [],
      gl_calls = []\<rparr>"

definition example_painter :: painter where
  "example_painter =
     PainterOGL example_graphics example_members \<lparr>width = 800, height = 600\<rparr>"

text \<open>A world with nothing in it but what the map view caches, a tile built from its
  position and its three size flags, and a map view with a viewport of five tiles on each
  side whose cache holds the given tiles on floor 7.\<close>

definition example_world :: world where
  "example_world =
     \<lparr>updateVisibleTilesCache = (\<lambda>mv. mv\<lparr>m_mustUpdateVisibleTilesCache := False\<rparr>),
      calcFramebufferSource =
        (\<lambda>mv s. \<lparr>x1 = 0, y1 = 0, x2 = width s - 1, y2 = height s - 1\<rparr>),
      transformPositionTo2D =
        (\<lambda>mv pos cam. \<lparr>px = (pos_x pos - pos_x cam) * m_tileSize mv,
                        py = (pos_y pos - pos_y cam) * m_tileSize mv\<rparr>),
      drawUp = (\<lambda>t. True),
      getTile = (\<lambda>pos. None),
      getFloorMissiles = (\<lambda>z. []),
      getStaticTexts = [],
      getAnimatedTexts = [],
      isValid = (\<lambda>pos. \<not> (pos_x pos = 65535 \<and> pos_y pos = 65535 \<and> pos_z pos = 255))\<rparr>"

definition example_tile :: "int \<Rightarrow> int \<Rightarrow> int \<Rightarrow> bool \<Rightarrow> bool \<Rightarrow> bool \<Rightarrow> Tile" where
  "example_tile x y z wide tall displaced =
     \<lparr>getPosition = \<lparr>pos_x = x, pos_y = y, pos_z = z\<rparr>,
      getGround = Some \<lparr>isTranslucent = False, isTopGround = False\<rparr>,
      hasGround = True,
      tile_isTopGround = False,
      hasWideThings = wide,
      hasTallThings = tall,
      hasDisplacement = displaced,
      hasLight = False\<rparr>"

definition example_viewport :: AwareRange where
  "example_viewport = \<lparr>range_top = 5, range_right = 5, range_bottom = 5, range_left = 5\<rparr>"

definition example_rect :: Rect where
  "example_rect = \<lparr>x1 = 0, y1 = 0, x2 = 479, y2 = 351\<rparr>"

definition example_mapView :: "Position \<Rightarrow> nat \<Rightarrow> nat \<Rightarrow> Tile list \<Rightarrow> MapView" where
  "example_mapView camera floorMin floorMax tiles =
     \<lparr>m_mustUpdateVisibleTilesCache = False,
      m_rectCache = \<lparr>rc_rect = example_rect, srcRect = example_rect,
                     drawOffset = \<lparr>px = 0, py = 0\<rparr>,
                     horizontalStretchFactor = Float 1, verticalStretchFactor = Float 1\<rparr>,
      m_rectDimension = example_rect,
      getCameraPosition = camera,
      m_drawLights = False,
      m_lightView = None,
      m_floorMin = floorMin,
      m_floorMax = floorMax,
      m_cachedVisibleTiles = (\<lambda>z. if z = 7 then tiles else []),
      m_viewport = example_viewport,
      m_tileSize = 32,
      m_drawViewportEdge = False,
      m_crosshairTexture = None,
      m_crosshairEffect = None,
      m_mousePosition = \<lparr>pos_x = 65535, pos_y = 65535, pos_z = 255\<rparr>,
      m_drawNames = False,
      m_drawHealthBars = False,
      m_drawManaBar = False,
      m_drawTexts = False,
      m_visibleCreatures = []\<rparr>"

definition camera_10_10_7 :: Position where
  "camera_10_10_7 = \<lparr>pos_x = 10, pos_y = 10, pos_z = 7\<rparr>"

text \<open>The position a default-constructed \<open>Position\<close> holds, which \<open>isValid\<close> of the example
  world rejects.\<close>

definition invalid_camera :: Position where
  "invalid_camera = \<lparr>pos_x = 65535, pos_y = 65535, pos_z = 255\<rparr>"

text \<open>A view on floor 7 only, whose camera position is the invalid one and whose cache holds
  one plain tile five tiles up and left of it.\<close>

definition lost_camera_view :: MapView where
  "lost_camera_view =
     example_mapView invalid_camera 7 7 [example_tile 65530 65530 7 False False False]"

section \<open>Properties of the tile visibility filter\<close>

lemma checkPos_same_floor:
  "checkPos_of \<lparr>pos_x = cx, pos_y = cy, pos_z = 7\<rparr> \<lparr>pos_x = x, pos_y = y, pos_z = 7\<rparr>
     = \<lparr>pos_x = x, pos_y = y, pos_z = 7\<rparr>"
  by (simp add: checkPos_of_def translated_def)

text \<open>Claim C1, as the code has it. For a tile whose check position lies exactly at the right
  viewport boundary and otherwise strictly inside the view, \<open>canRenderTile\<close> returns true
  when the tile has wide things or displacement (so in particular when it has both), and
  returns false only when both flags are absent and neither the viewport-edge option nor
  the dark-light rule forces the tile.\<close>

theorem canRenderTile_right_edge:
  assumes "checkPos = checkPos_of (getCameraPosition mv) (getPosition tile)"
    and "pos_x checkPos - pos_x (getCameraPosition mv) = range_right vp"
    and "pos_x (getCameraPosition mv) - pos_x checkPos < range_left vp"
    and "pos_y (getCameraPosition mv) - pos_y checkPos < range_top vp"
    and "pos_y checkPos - pos_y (getCameraPosition mv) < range_bottom vp"
  shows "canRenderTile mv tile vp lv =
     (m_drawViewportEdge mv \<or>
      (case lv of Some l \<Rightarrow> isDark l \<and> hasLight tile | None \<Rightarrow> False) \<or>
      hasWideThings tile \<or> hasDisplacement tile)"
  using assms by (auto simp: canRenderTile_def Let_def)

text \<open>At the right edge of the example view: a tile with both flags and a tile with
  displacement only are rendered, a tile with neither is not.\<close>

theorem canRenderTile_right_edge_witness:
  "canRenderTile (example_mapView camera_10_10_7 0 7 []) (example_tile 15 10 7 True True False)
     example_viewport None \<and>
   canRenderTile (example_mapView camera_10_10_7 0 7 []) (example_tile 15 10 7 False False True)
     example_viewport None \<and>
   \<not> canRenderTile (example_mapView camera_10_10_7 0 7 []) (example_tile 15 10 7 False True False)
     example_viewport None"
  using canRenderTile_right_edge [of "\<lparr>pos_x = 15, pos_y = 10, pos_z = 7\<rparr>"
      "example_mapView camera_10_10_7 0 7 []" "example_tile 15 10 7 True True False"
      example_viewport None]
    canRenderTile_right_edge [of "\<lparr>pos_x = 15, pos_y = 10, pos_z = 7\<rparr>"
      "example_mapView camera_10_10_7 0 7 []" "example_tile 15 10 7 False False True"
      example_viewport None]
    canRenderTile_right_edge [of "\<lparr>pos_x = 15, pos_y = 10, pos_z = 7\<rparr>"
      "example_mapView camera_10_10_7 0 7 []" "example_tile 15 10 7 False True False"
      example_viewport None]
  by (simp add: example_mapView_def example_tile_def example_viewport_def camera_10_10_7_def
      checkPos_same_floor)

text \<open>Claim C1 as stated fails: a tile at the exact right boundary that has wide things but
  no displacement is rendered, although one of the two flags is absent.\<close>

theorem canRenderTile_right_edge_counterexample:
  "pos_x (checkPos_of camera_10_10_7 (getPosition (example_tile 15 10 7 True False False)))
     - pos_x camera_10_10_7 = range_right example_viewport \<and>
   hasWideThings (example_tile 15 10 7 True False False) \<and>
   \<not> hasDisplacement (example_tile 15 10 7 True False False) \<and>
   canRenderTile (example_mapView camera_10_10_7 0 7 []) (example_tile 15 10 7 True False False)
     example_viewport None"
  by (simp add: canRenderTile_def Let_def example_mapView_def example_tile_def
      example_viewport_def camera_10_10_7_def checkPos_same_floor)

text \<open>Claim C2, as the code has it. For a tile whose check position lies at or beyond the
  left or the top viewport boundary, \<open>canRenderTile\<close> returns false whatever the wide, tall
  and displacement flags of the tile are; it returns true only when the viewport-edge
  option or the dark-light rule forces the tile.\<close>

theorem canRenderTile_left_top_edge:
  assumes "checkPos = checkPos_of (getCameraPosition mv) (getPosition tile)"
    and "pos_x (getCameraPosition mv) - pos_x checkPos \<ge> range_left vp \<or>
         pos_y (getCameraPosition mv) - pos_y checkPos \<ge> range_top vp"
  shows "canRenderTile mv tile vp lv =
     (m_drawViewportEdge mv \<or>
      (case lv of Some l \<Rightarrow> isDark l \<and> hasLight tile | None \<Rightarrow> False))"
  using assms by (auto simp: canRenderTile_def Let_def)

text \<open>At the left edge and beyond the top edge of the example view, tiles with flags set are
  not rendered.\<close>

theorem canRenderTile_left_top_edge_witness:
  "\<not> canRenderTile (example_mapView camera_10_10_7 0 7 []) (example_tile 5 10 7 True False True)
     example_viewport None \<and>
   \<not> canRenderTile (example_mapView camera_10_10_7 0 7 []) (example_tile 10 4 7 False True False)
     example_viewport None"
  using canRenderTile_left_top_edge [of "\<lparr>pos_x = 5, pos_y = 10, pos_z = 7\<rparr>"
      "example_mapView camera_10_10_7 0 7 []" "example_tile 5 10 7 True False True"
      example_viewport None]
    canRenderTile_left_top_edge [of "\<lparr>pos_x = 10, pos_y = 4, pos_z = 7\<rparr>"
      "example_mapView camera_10_10_7 0 7 []" "example_tile 10 4 7 False True False"
      example_viewport None]
  by (simp add: example_mapView_def example_tile_def example_viewport_def camera_10_10_7_def
      checkPos_same_floor)

text \<open>Claim C2 as stated fails: a tile at the left boundary that has wide things, tall
  things and displacement does not survive.\<close>

theorem canRenderTile_left_top_edge_counterexample:
  "pos_x camera_10_10_7
     - pos_x (checkPos_of camera_10_10_7 (getPosition (example_tile 5 10 7 True True True)))
     = range_left example_viewport \<and>
   hasWideThings (example_tile 5 10 7 True True True) \<and>
   hasTallThings (example_tile 5 10 7 True True True) \<and>
   hasDisplacement (example_tile 5 10 7 True True True) \<and>
   \<not> canRenderTile (example_mapView camera_10_10_7 0 7 []) (example_tile 5 10 7 True True True)
     example_viewport None"
  by (simp add: canRenderTile_def Let_def example_mapView_def example_tile_def
      example_viewport_def camera_10_10_7_def checkPos_same_floor)

section \<open>Properties of the frame\<close>

lemma sint_of_nat_8: "n \<le> 127 \<Longrightarrow> sint (of_nat n :: 8 word) = int n"
proof -
  assume a: "n \<le> 127"
  have "sint (of_nat n :: 8 word) = sint (word_of_int (int n) :: 8 word)"
    by simp
  also have "\<dots> = signed_take_bit (LENGTH(8) - 1) (int n)"
    by (rule sint_sbintrunc')
  also have "\<dots> = int n"
    using a by (intro signed_take_bit_int_eq_self) simp_all
  finally show ?thesis .
qed

lemma example_mapView_fields:
  "m_mustUpdateVisibleTilesCache (example_mapView cam lo hi ts) = False"
  "rc_rect (m_rectCache (example_mapView cam lo hi ts)) = example_rect"
  "getCameraPosition (example_mapView cam lo hi ts) = cam"
  "m_drawLights (example_mapView cam lo hi ts) = False"
  "m_floorMin (example_mapView cam lo hi ts) = lo"
  "m_floorMax (example_mapView cam lo hi ts) = hi"
  "m_cachedVisibleTiles (example_mapView cam lo hi ts) z = (if z = 7 then ts else [])"
  "m_viewport (example_mapView cam lo hi ts) = example_viewport"
  "m_tileSize (example_mapView cam lo hi ts) = 32"
  "m_drawViewportEdge (example_mapView cam lo hi ts) = False"
  "m_crosshairTexture (example_mapView cam lo hi ts) = None"
  "m_drawNames (example_mapView cam lo hi ts) = False"
  "m_drawHealthBars (example_mapView cam lo hi ts) = False"
  "m_drawManaBar (example_mapView cam lo hi ts) = False"
  "m_drawTexts (example_mapView cam lo hi ts) = False"
  by (simp_all add: example_mapView_def)

lemma example_world_fields:
  "drawUp example_world t = True"
  "getFloorMissiles example_world z = []"
  "transformPositionTo2D example_world mv pos cam =
     \<lparr>px = (pos_x pos - pos_x cam) * m_tileSize mv, py = (pos_y pos - pos_y cam) * m_tileSize mv\<rparr>"
  "isValid example_world pos = (\<not> (pos_x pos = 65535 \<and> pos_y pos = 65535 \<and> pos_z pos = 255))"
  by (simp_all add: example_world_def)

text \<open>A frame of the example view in the example world is its floor loop and nothing else:
  the caches are fresh, and lights, crosshair, creature information and texts are off.\<close>

lemma example_draw:
  "draw example_world (example_mapView cam lo hi ts) example_rect =
     (example_mapView cam lo hi ts,
      draw_floors example_world (example_mapView cam lo hi ts) cam None (of_nat hi))"
  by (simp add: draw_def Let_def refresh_rectCache_def refresh_visibleTilesCache_def
      draw_crosshair_def drawCreatureInformation_def drawText_def
      example_mapView_fields example_world_fields)

subsection \<open>The order of the floors\<close>

lemma floors_visited_simps [simp]:
  "floors_visited [] = []"
  "floors_visited (e # es) = floor_started e @ floors_visited es"
  "floors_visited (as @ bs) = floors_visited as @ floors_visited bs"
  by (simp_all add: floors_visited_def)

lemma floors_visited_concat_map:
  "(\<And>x. x \<in> set xs \<Longrightarrow> floors_visited (f x) = []) \<Longrightarrow>
   floors_visited (concat (map f xs)) = []"
  by (induction xs) simp_all

lemma floors_visited_map:
  "(\<And>x. x \<in> set xs \<Longrightarrow> floor_started (f x) = []) \<Longrightarrow>
   floors_visited (map f xs) = []"
  by (induction xs) simp_all

lemma floors_visited_seam_shade [simp]: "floors_visited (seam_shade w pos2D ps) = []"
  by (induction ps) (simp_all split: option.splits)

lemma floors_visited_shade_tile [simp]: "floors_visited (shade_tile w mv cam tile) = []"
  by (simp add: shade_tile_def Let_def split: option.splits)

lemma floors_visited_tile_passes [simp]:
  "floors_visited (draw_ground_pass w mv cam lv tile) = []"
  "floors_visited (draw_items_pass w mv cam lv tile) = []"
  by (simp_all add: draw_ground_pass_def draw_items_pass_def)

lemma floors_visited_draw_floor: "floors_visited (draw_floor w mv cam lv z) = [sint z]"
  by (simp add: draw_floor_def Let_def floors_visited_concat_map floors_visited_map
      split: option.splits)

text \<open>Entered with the counter at \<open>z\<close>, the loop starts the floors from \<open>z\<close> down to
  \<open>m_floorMin\<close>, and none when \<open>z\<close> is below \<open>m_floorMin\<close>.\<close>

lemma floors_visited_draw_floors:
  "floors_visited (draw_floors w mv cam lv z) =
     rev (map int [m_floorMin mv ..< nat (sint z + 1)])"
proof (induction w mv cam lv z rule: draw_floors.induct)
  case (1 w mv cam lv z)
  show ?case
  proof (cases "int (m_floorMin mv) \<le> sint z")
    case True
    then have nonneg: "0 \<le> sint z" by simp
    have pred: "sint (z - 1) = sint z - 1" using nonneg by (rule sint_pred_8)
    have "floors_visited (draw_floors w mv cam lv z) =
        sint z # floors_visited (draw_floors w mv cam lv (z - 1))"
      using True by (simp add: draw_floors.simps [of w mv cam lv z] floors_visited_draw_floor)
    also have "\<dots> = sint z # rev (map int [m_floorMin mv ..< nat (sint z)])"
      using "1.IH" [OF True] pred by simp
    also have "\<dots> = rev (map int ([m_floorMin mv ..< nat (sint z)] @ [nat (sint z)]))"
      using nonneg by simp
    also have "[m_floorMin mv ..< nat (sint z)] @ [nat (sint z)] =
        [m_floorMin mv ..< Suc (nat (sint z))]"
      using True by simp
    also have "Suc (nat (sint z)) = nat (sint z + 1)" using nonneg by simp
    finally show ?thesis .
  next
    case False
    then have "nat (sint z + 1) \<le> m_floorMin mv" by simp
    then show ?thesis
      using False by (simp add: draw_floors.simps [of w mv cam lv z])
  qed
qed

lemma floors_visited_rest [simp]:
  "floors_visited (draw_crosshair w mv cam) = []"
  "floors_visited (drawCreatureInformation w mv) = []"
  "floors_visited (drawText w mv) = []"
  by (simp_all add: draw_crosshair_def drawCreatureInformation_def drawText_def Let_def
      floors_visited_concat_map floors_visited_map split: option.splits)

text \<open>Claim C9. For a map view with the floor bounds \<open>m_floorMin\<close> and \<open>m_floorMax\<close> (as the
  frame uses them, after the refresh of its caches), the floor loop of a frame, which the
  frame enters when the draw pool accepts the map layer, starts the floors \<open>m_floorMax\<close>,
  \<open>m_floorMax - 1\<close>, ..., \<open>m_floorMin\<close> in this order, each once. A floor is an index that
  the eight-bit loop counter holds, hence at most 127. (For \<open>m_floorMin > m_floorMax\<close> the
  list is empty.)\<close>

theorem draw_visits_floors_descending:
  assumes "drawUp w DRAWTYPE_MAP"
    and "mv = fst (draw w mapView0 rect)"
    and "m_floorMax mv \<le> 127"
  shows "floors_visited (snd (draw w mapView0 rect)) =
     rev (map int [m_floorMin mv ..< Suc (m_floorMax mv)])"
proof -
  have mv: "mv = refresh_rectCache w (refresh_visibleTilesCache w mapView0) rect"
    using assms(2) by (simp add: draw_def Let_def)
  have "floors_visited (snd (draw w mapView0 rect)) =
      floors_visited (draw_floors w mv (getCameraPosition mv)
        (if m_drawLights mv then m_lightView mv else None) (of_nat (m_floorMax mv)))"
    using assms(1) by (simp add: draw_def Let_def mv)
  also have "\<dots> =
      rev (map int [m_floorMin mv ..< nat (sint (of_nat (m_floorMax mv) :: 8 word) + 1)])"
    by (rule floors_visited_draw_floors)
  also have "nat (sint (of_nat (m_floorMax mv) :: 8 word) + 1) = Suc (m_floorMax mv)"
    using assms(3) by (simp add: sint_of_nat_8)
  finally show ?thesis .
qed

text \<open>With the floor bounds 0 and 7 the frame visits 7, 6, ..., 0.\<close>

theorem draw_visits_floors_descending_witness:
  "floors_visited (snd (draw example_world (example_mapView camera_10_10_7 0 7 []) example_rect)) =
     [7, 6, 5, 4, 3, 2, 1, 0]"
proof -
  have up: "drawUp example_world DRAWTYPE_MAP" by (simp add: example_world_fields)
  have hi: "m_floorMax (example_mapView camera_10_10_7 0 7 []) \<le> 127"
    "m_floorMax (example_mapView camera_10_10_7 0 7 []) = 7"
    "m_floorMin (example_mapView camera_10_10_7 0 7 []) = 0"
    by (simp_all add: example_mapView_fields)
  have l: "rev (map int [0 ..< Suc 7]) = [7, 6, 5, 4, 3, 2, 1, 0]"
    by (simp add: upt_rec)
  have "example_mapView camera_10_10_7 0 7 [] =
      fst (draw example_world (example_mapView camera_10_10_7 0 7 []) example_rect)"
    by (simp add: example_draw)
  from draw_visits_floors_descending [OF up this]
  show ?thesis using hi l by simp
qed

subsection \<open>The camera position\<close>

lemma draw_floor_in_draw_floors:
  "int (m_floorMin mv) \<le> sint z' \<Longrightarrow> sint z' \<le> sint z \<Longrightarrow>
   set (draw_floor w mv cam lv z') \<subseteq> set (draw_floors w mv cam lv z)"
proof (induction w mv cam lv z rule: draw_floors.induct)
  case (1 w mv cam lv z)
  have ge: "int (m_floorMin mv) \<le> sint z" using "1.prems" by simp
  then have nonneg: "0 \<le> sint z" by simp
  have unfold: "draw_floors w mv cam lv z =
      draw_floor w mv cam lv z @ draw_floors w mv cam lv (z - 1)"
    using ge by (simp add: draw_floors.simps [of w mv cam lv z])
  show ?case
  proof (cases "z' = z")
    case True
    then show ?thesis by (simp add: unfold)
  next
    case False
    then have "sint z' \<noteq> sint z" by (auto dest: signed_word_eqI)
    then have "sint z' \<le> sint (z - 1)"
      using "1.prems"(2) sint_pred_8 [OF nonneg] by simp
    from "1.IH" [OF ge "1.prems"(1) this] show ?thesis by (auto simp: unfold)
  qed
qed

lemma drawGround_in_draw_floor:
  "tile \<in> set (m_cachedVisibleTiles mv (sint z)) \<Longrightarrow>
   canRenderTile mv tile (m_viewport mv) lv \<Longrightarrow>
   TilePainter_drawGround tile (transformPositionTo2D w mv (getPosition tile) cam)
     \<in> set (draw_floor w mv cam lv z)"
  by (auto simp: draw_floor_def draw_ground_pass_def intro!: bexI [of _ tile])

text \<open>Claim C3, as the code has it. \<open>draw\<close> does not test the camera position (the test is
  commented out), so a frame with a missing or invalid camera position is not skipped:
  whatever the camera position is, when the draw pool accepts the map layer, the frame
  draws the ground of every tile that is cached for a floor between \<open>m_floorMin\<close> and
  \<open>m_floorMax\<close> (at most 127) and that \<open>canRenderTile\<close> accepts.\<close>

theorem draw_without_camera_check:
  assumes "drawUp w DRAWTYPE_MAP"
    and "mv = fst (draw w mapView0 rect)"
    and "m_floorMin mv \<le> k" and "k \<le> m_floorMax mv" and "m_floorMax mv \<le> 127"
    and "tile \<in> set (m_cachedVisibleTiles mv (int k))"
    and "canRenderTile mv tile (m_viewport mv) (if m_drawLights mv then m_lightView mv else None)"
  shows "TilePainter_drawGround tile
           (transformPositionTo2D w mv (getPosition tile) (getCameraPosition mv))
         \<in> set (snd (draw w mapView0 rect))"
proof -
  let ?lv = "if m_drawLights mv then m_lightView mv else None"
  let ?cam = "getCameraPosition mv"
  have mv: "mv = refresh_rectCache w (refresh_visibleTilesCache w mapView0) rect"
    using assms(2) by (simp add: draw_def Let_def)
  have k: "sint (of_nat k :: 8 word) = int k"
    using assms(4,5) by (simp add: sint_of_nat_8)
  have hi: "sint (of_nat (m_floorMax mv) :: 8 word) = int (m_floorMax mv)"
    using assms(5) by (simp add: sint_of_nat_8)
  have "TilePainter_drawGround tile (transformPositionTo2D w mv (getPosition tile) ?cam)
      \<in> set (draw_floor w mv ?cam ?lv (of_nat k))"
    using assms(6,7) by (intro drawGround_in_draw_floor) (simp_all only: k)
  moreover have "set (draw_floor w mv ?cam ?lv (of_nat k))
      \<subseteq> set (draw_floors w mv ?cam ?lv (of_nat (m_floorMax mv)))"
    using assms(3,4) by (intro draw_floor_in_draw_floors) (simp_all add: k hi)
  moreover have "set (draw_floors w mv ?cam ?lv (of_nat (m_floorMax mv)))
      \<subseteq> set (snd (draw w mapView0 rect))"
    using assms(1) by (simp add: draw_def Let_def mv [symmetric])
  ultimately show ?thesis by blast
qed

lemma lost_camera_canRenderTile:
  "canRenderTile lost_camera_view (example_tile 65530 65530 7 False False False)
     example_viewport None"
  by (simp add: canRenderTile_def Let_def lost_camera_view_def example_mapView_def
      example_tile_def example_viewport_def invalid_camera_def checkPos_of_def translated_def)

lemma lost_camera_invalid: "\<not> isValid example_world (getCameraPosition lost_camera_view)"
  by (simp add: lost_camera_view_def example_mapView_fields example_world_fields
      invalid_camera_def)

text \<open>In the view whose camera position is the invalid one, the ground of the cached tile
  is drawn.\<close>

theorem draw_without_camera_check_witness:
  "\<not> isValid example_world (getCameraPosition lost_camera_view) \<and>
   TilePainter_drawGround (example_tile 65530 65530 7 False False False)
       \<lparr>px = - 160, py = - 160\<rparr>
     \<in> set (snd (draw example_world lost_camera_view example_rect))"
proof -
  have fst_draw: "lost_camera_view = fst (draw example_world lost_camera_view example_rect)"
    by (simp add: lost_camera_view_def example_draw)
  have up: "drawUp example_world DRAWTYPE_MAP" by (simp add: example_world_fields)
  have "TilePainter_drawGround (example_tile 65530 65530 7 False False False)
       (transformPositionTo2D example_world lost_camera_view
          (getPosition (example_tile 65530 65530 7 False False False))
          (getCameraPosition lost_camera_view))
     \<in> set (snd (draw example_world lost_camera_view example_rect))"
    using lost_camera_canRenderTile
    by (intro draw_without_camera_check [OF up fst_draw, of 7])
       (simp_all add: lost_camera_view_def example_mapView_fields)
  moreover have "transformPositionTo2D example_world lost_camera_view
          (getPosition (example_tile 65530 65530 7 False False False))
          (getCameraPosition lost_camera_view) = \<lparr>px = - 160, py = - 160\<rparr>"
    by (simp add: lost_camera_view_def example_mapView_fields example_world_fields
        example_tile_def invalid_camera_def)
  ultimately show ?thesis using lost_camera_invalid by simp
qed

text \<open>Claim C3 as stated fails: with the invalid camera position the frame is not empty. It
  runs floor 7 in full, with both passes over the cached tile.\<close>

theorem draw_without_camera_check_counterexample:
  "\<not> isValid example_world (getCameraPosition lost_camera_view) \<and>
   snd (draw example_world lost_camera_view example_rect) =
     [onFloorDrawingStart 7,
      TilePainter_drawStart (example_tile 65530 65530 7 False False False),
      TilePainter_drawGround (example_tile 65530 65530 7 False False False)
        \<lparr>px = - 160, py = - 160\<rparr>,
      TilePainter_drawEnd (example_tile 65530 65530 7 False False False),
      TilePainter_drawStart (example_tile 65530 65530 7 False False False),
      TilePainter_drawBottom (example_tile 65530 65530 7 False False False)
        \<lparr>px = - 160, py = - 160\<rparr>,
      TilePainter_drawTop (example_tile 65530 65530 7 False False False)
        \<lparr>px = - 160, py = - 160\<rparr>,
      TilePainter_drawEnd (example_tile 65530 65530 7 False False False),
      onFloorDrawingEnd 7]"
proof -
  let ?t = "example_tile 65530 65530 7 False False False"
  have pt: "transformPositionTo2D example_world lost_camera_view (getPosition ?t) invalid_camera
      = \<lparr>px = - 160, py = - 160\<rparr>"
    by (simp add: lost_camera_view_def example_mapView_fields example_world_fields
        example_tile_def invalid_camera_def)
  have can: "canRenderTile lost_camera_view ?t (m_viewport lost_camera_view) None"
    using lost_camera_canRenderTile by (simp add: lost_camera_view_def example_mapView_fields)
  have floors: "draw_floors example_world lost_camera_view invalid_camera None 7 =
      draw_floor example_world lost_camera_view invalid_camera None 7"
    by (simp add: draw_floors.simps [of _ _ _ _ 7] draw_floors.simps [of _ _ _ _ 6]
        lost_camera_view_def example_mapView_fields)
  have "draw_floor example_world lost_camera_view invalid_camera None 7 =
     [onFloorDrawingStart 7,
      TilePainter_drawStart ?t, TilePainter_drawGround ?t \<lparr>px = - 160, py = - 160\<rparr>,
      TilePainter_drawEnd ?t,
      TilePainter_drawStart ?t, TilePainter_drawBottom ?t \<lparr>px = - 160, py = - 160\<rparr>,
      TilePainter_drawTop ?t \<lparr>px = - 160, py = - 160\<rparr>, TilePainter_drawEnd ?t,
      onFloorDrawingEnd 7]"
    using can pt
    by (simp add: draw_floor_def draw_ground_pass_def draw_items_pass_def
        example_world_fields(2) lost_camera_view_def example_mapView_fields)
  with floors lost_camera_invalid show ?thesis
    by (simp add: lost_camera_view_def example_draw)
qed

section \<open>Properties of the painter state\<close>

lemma and_then_simps [simp]:
  "and_then (Inl e) f = Inl e"
  "and_then (Inr a) f = f a"
  by (simp_all add: and_then_def)

lemma example_painter_fields:
  "m_resolution example_painter = \<lparr>width = 800, height = 600\<rparr>"
  "m_oldStateIndex example_painter = 0"
  "m_texture example_painter = None"
  "m_transformMatrixStack example_painter = []"
  "m_clipRect example_painter = \<lparr>x1 = 0, y1 = 0, x2 = - 1, y2 = - 1\<rparr>"
  "gl_calls example_painter = [glViewport 0 0 800 600]"
  by (simp_all add: example_painter_def PainterOGL_def setResolution_def example_members_def
      example_graphics_def setProjectionMatrix_def updateGlViewport_def gl_def Let_def)

lemma gl_frame [simp]:
  "m_resolution (gl c p) = m_resolution p"
  "m_clipRect (gl c p) = m_clipRect p"
  "m_compositionMode (gl c p) = m_compositionMode p"
  "m_blendEquation (gl c p) = m_blendEquation p"
  "m_alphaWriting (gl c p) = m_alphaWriting p"
  "m_projectionMatrix (gl c p) = m_projectionMatrix p"
  by (simp_all add: gl_def)

lemma setTexture_frame:
  "m_color (setTexture g p t) = m_color p"
  "m_opacity (setTexture g p t) = m_opacity p"
  "m_compositionMode (setTexture g p t) = m_compositionMode p"
  "m_blendEquation (setTexture g p t) = m_blendEquation p"
  "m_clipRect (setTexture g p t) = m_clipRect p"
  "m_transformMatrix (setTexture g p t) = m_transformMatrix p"
  "m_texture (setTexture g p t) = t"
  by (simp_all add: setTexture_def updateGlTexture_def setTextureMatrix_def gl_def Let_def
      split: option.splits)

subsection \<open>Save and restore\<close>

text \<open>What a save followed by a restore amounts to: every setter of the restore meets the
  value it is given, except \<open>setTexture\<close>, which is given the texture field of the
  snapshot, and \<open>getCurrentState\<close> never assigns that field.\<close>

lemma restore_after_save:
  assumes "0 \<le> m_oldStateIndex p" "m_oldStateIndex p < 10"
  shows "and_then (saveState fresh p) (restoreSavedState g) =
     Inr (setTexture g
            (p\<lparr>m_olderStates :=
                 (m_olderStates p)(nat (m_oldStateIndex p) := getCurrentState fresh p)\<rparr>)
            (texture fresh))"
  using assms
  by (simp add: saveState_def restoreSavedState_def executeState_def Let_def
      getCurrentState_def setResolution_def setTransformMatrix_def setTextureMatrix_def
      setColor_def setOpacity_def setCompositionMode_def setBlendEquation_def setClipRect_def
      setShaderProgram_def setAlphaWriting_def)

text \<open>Claim C4, on the code. With fewer than ten snapshots saved, \<open>saveState\<close> followed by
  \<open>restoreSavedState\<close> returns, and leaves color, opacity, composition mode, blend equation,
  clip rect and transform matrix as they were; the bound texture, however, becomes the
  texture field of a default-constructed \<open>PainterState\<close>, not the texture bound before.\<close>

theorem saveState_restoreSavedState_texture:
  assumes "0 \<le> m_oldStateIndex p" "m_oldStateIndex p < 10"
  shows "\<exists>r. and_then (saveState fresh p) (restoreSavedState g) = Inr r \<and>
     m_color r = m_color p \<and> m_opacity r = m_opacity p \<and>
     m_compositionMode r = m_compositionMode p \<and> m_blendEquation r = m_blendEquation p \<and>
     m_clipRect r = m_clipRect p \<and> m_transformMatrix r = m_transformMatrix p \<and>
     m_texture r = texture fresh"
  unfolding restore_after_save [OF assms]
  by (simp add: setTexture_frame)

text \<open>The failing input: the example painter with the texture at address 3 bound. After
  save and restore no texture is bound.\<close>

theorem saveState_restoreSavedState_texture_witness:
  "m_texture (setTexture example_graphics example_painter (Some 3)) = Some 3 \<and>
   (\<exists>r. and_then (saveState example_fresh (setTexture example_graphics example_painter (Some 3)))
           (restoreSavedState example_graphics) = Inr r \<and> m_texture r = None)"
proof -
  let ?p = "setTexture example_graphics example_painter (Some 3)"
  have i: "m_oldStateIndex ?p = 0"
    by (simp add: setTexture_def updateGlTexture_def setTextureMatrix_def gl_def Let_def
        example_painter_fields)
  have "0 \<le> m_oldStateIndex ?p" "m_oldStateIndex ?p < 10" by (simp_all add: i)
  from saveState_restoreSavedState_texture [OF this, of example_fresh example_graphics]
  show ?thesis by (auto simp: setTexture_frame example_fresh_def)
qed

text \<open>Claim C5, on the code. \<open>saveState\<close> with ten snapshots saved fails its assertion.
  \<open>restoreSavedState\<close> with no snapshot saved fails no assertion: it decrements the index
  to -1 and reads \<open>m_olderStates\<close> there.\<close>

theorem state_stack_bounds:
  "saveState fresh (p\<lparr>m_oldStateIndex := 10\<rparr>) = Inl AssertionFailed \<and>
   restoreSavedState g (p\<lparr>m_oldStateIndex := 0\<rparr>) = Inl (OutOfBoundsAccess (- 1))"
  by (simp add: saveState_def restoreSavedState_def Let_def)

subsection \<open>The transform-matrix stack\<close>

lemma pushTransformMatrix_ok:
  "length (m_transformMatrixStack p) < 99 \<Longrightarrow>
   pushTransformMatrix p =
     Inr (p\<lparr>m_transformMatrixStack := m_transformMatrixStack p @ [m_transformMatrix p]\<rparr>)"
  by (simp add: pushTransformMatrix_def Let_def)

lemma pushTransformMatrix_full:
  "99 \<le> length (m_transformMatrixStack p) \<Longrightarrow> pushTransformMatrix p = Inl AssertionFailed"
  by (simp add: pushTransformMatrix_def Let_def)

lemma pop_after_push:
  "popTransformMatrix
     (setTransformMatrix
        (p\<lparr>m_transformMatrixStack := m_transformMatrixStack p @ [m_transformMatrix p]\<rparr>) m) =
   Inr p"
  by (simp add: popTransformMatrix_def setTransformMatrix_def)

lemma pops_Suc_end:
  "pops (Suc n) p = and_then (pops n p) popTransformMatrix"
proof (induction n arbitrary: p)
  case 0
  show ?case by (cases "popTransformMatrix p") simp_all
next
  case (Suc n)
  show ?case
  proof (cases "popTransformMatrix p")
    case (Inl e)
    then show ?thesis by simp
  next
    case (Inr q)
    have "pops (Suc (Suc n)) p = pops (Suc n) q" using Inr by simp
    also have "\<dots> = and_then (pops n q) popTransformMatrix" by (rule Suc.IH)
    also have "\<dots> = and_then (pops (Suc n) p) popTransformMatrix" using Inr by simp
    finally show ?thesis .
  qed
qed

lemma pushes_then_pops:
  "length (m_transformMatrixStack p) + length ms \<le> 99 \<Longrightarrow>
   \<exists>q. pushes ms p = Inr q \<and> pops (length ms) q = Inr p \<and>
       length (m_transformMatrixStack q) = length (m_transformMatrixStack p) + length ms"
proof (induction ms arbitrary: p)
  case Nil
  show ?case by simp
next
  case (Cons m ms)
  let ?p1 = "setTransformMatrix
     (p\<lparr>m_transformMatrixStack := m_transformMatrixStack p @ [m_transformMatrix p]\<rparr>) m"
  have len: "length (m_transformMatrixStack ?p1) = Suc (length (m_transformMatrixStack p))"
    by (simp add: setTransformMatrix_def)
  have push: "pushes (m # ms) p = pushes ms ?p1"
    using Cons.prems by (simp add: pushTransformMatrix_ok)
  have "length (m_transformMatrixStack ?p1) + length ms \<le> 99"
    using Cons.prems len by simp
  from Cons.IH [OF this] obtain q where q: "pushes ms ?p1 = Inr q"
    "pops (length ms) q = Inr ?p1"
    "length (m_transformMatrixStack q) = length (m_transformMatrixStack ?p1) + length ms"
    by blast
  have "pops (length (m # ms)) q = and_then (pops (length ms) q) popTransformMatrix"
    using pops_Suc_end [of "length ms" q] by simp
  also have "\<dots> = Inr p" by (simp add: q(2) pop_after_push)
  finally have "pops (length (m # ms)) q = Inr p" .
  with push q(1) q(3) len show ?case by simp
qed

lemma pushes_overflow:
  "length (m_transformMatrixStack p) \<le> 99 \<Longrightarrow>
   100 \<le> length (m_transformMatrixStack p) + length ms \<Longrightarrow>
   pushes ms p = Inl AssertionFailed"
proof (induction ms arbitrary: p)
  case Nil
  then show ?case by simp
next
  case (Cons m ms)
  show ?case
  proof (cases "length (m_transformMatrixStack p) < 99")
    case True
    let ?p1 = "setTransformMatrix
       (p\<lparr>m_transformMatrixStack := m_transformMatrixStack p @ [m_transformMatrix p]\<rparr>) m"
    have len: "length (m_transformMatrixStack ?p1) = Suc (length (m_transformMatrixStack p))"
      by (simp add: setTransformMatrix_def)
    have "pushes (m # ms) p = pushes ms ?p1"
      using True by (simp add: pushTransformMatrix_ok)
    also have "\<dots> = Inl AssertionFailed"
      using True Cons.prems len by (intro Cons.IH) simp_all
    finally show ?thesis .
  next
    case False
    then show ?thesis by (simp add: pushTransformMatrix_full)
  qed
qed

text \<open>Claim C6, as the code has it. Starting from an empty transform-matrix stack, pushing
  up to 99 transform matrices (whatever the transform is set to in between) and then
  popping as many succeeds and returns the painter, its current transform matrix included,
  to its state before the first push. After 99 pushes the next one, the 100th, fails the
  assertion; after fewer it does not.\<close>

theorem transform_stack_99:
  assumes "m_transformMatrixStack p = []" and "length ms \<le> 99"
  shows "\<exists>q. pushes ms p = Inr q \<and> pops (length ms) q = Inr p \<and>
     (if length ms = 99 then pushTransformMatrix q = Inl AssertionFailed
      else pushTransformMatrix q \<noteq> Inl AssertionFailed)"
proof -
  have "length (m_transformMatrixStack p) + length ms \<le> 99" using assms by simp
  from pushes_then_pops [OF this] obtain q where q: "pushes ms p = Inr q"
    "pops (length ms) q = Inr p"
    "length (m_transformMatrixStack q) = length (m_transformMatrixStack p) + length ms"
    by blast
  have "length (m_transformMatrixStack q) = length ms" using q(3) assms(1) by simp
  then have "if length ms = 99 then pushTransformMatrix q = Inl AssertionFailed
      else pushTransformMatrix q \<noteq> Inl AssertionFailed"
    using assms(2) by (simp add: pushTransformMatrix_full pushTransformMatrix_ok)
  with q(1) q(2) show ?thesis by blast
qed

theorem transform_stack_99_witness:
  "\<exists>q. pushes (replicate 99 Matrix3_identity) example_painter = Inr q \<and>
       pops 99 q = Inr example_painter \<and> pushTransformMatrix q = Inl AssertionFailed"
  using transform_stack_99 [of example_painter "replicate 99 Matrix3_identity"]
  by (simp add: example_painter_fields)

text \<open>Claim C6 as stated fails: from the empty stack of the example painter, 100 pushes do
  not succeed. The 100th push fails the assertion \<open>size() < 100\<close>.\<close>

theorem transform_stack_100_counterexample:
  "pushes (replicate 100 Matrix3_identity) example_painter = Inl AssertionFailed"
  by (rule pushes_overflow) (simp_all add: example_painter_fields)

subsection \<open>Memoizing setters\<close>

lemma setCompositionMode_stored: "m_compositionMode (setCompositionMode g p v) = v"
  by (simp add: setCompositionMode_def updateGlCompositionMode_def split: CompositionMode.splits)

lemma setBlendEquation_stored: "m_blendEquation (setBlendEquation g p v) = v"
  by (simp add: setBlendEquation_def updateGlBlendEquation_def)

lemma setClipRect_stored: "m_clipRect (setClipRect p v) = v"
  by (simp add: setClipRect_def updateGlClipRect_def)

lemma setAlphaWriting_stored: "m_alphaWriting (setAlphaWriting p v) = v"
  by (simp add: setAlphaWriting_def updateGlAlphaWriting_def)

lemma setResolution_stored: "m_resolution (setResolution g p v) = v"
  by (simp add: setResolution_def updateGlViewport_def setProjectionMatrix_def Let_def)

lemma setters_same:
  "setCompositionMode g p (m_compositionMode p) = p"
  "setBlendEquation g p (m_blendEquation p) = p"
  "setClipRect p (m_clipRect p) = p"
  "setAlphaWriting p (m_alphaWriting p) = p"
  "setTexture g p (m_texture p) = p"
  "setResolution g p (m_resolution p) = p"
  by (simp_all add: setCompositionMode_def setBlendEquation_def setClipRect_def
      setAlphaWriting_def setTexture_def setResolution_def)

lemma setters_twice:
  "setCompositionMode g (setCompositionMode g p cm) cm = setCompositionMode g p cm"
  "setBlendEquation g (setBlendEquation g p be) be = setBlendEquation g p be"
  "setClipRect (setClipRect p cr) cr = setClipRect p cr"
  "setAlphaWriting (setAlphaWriting p aw) aw = setAlphaWriting p aw"
  "setTexture g (setTexture g p t) t = setTexture g p t"
  "setResolution g (setResolution g p res) res = setResolution g p res"
  using setters_same(1) [of g "setCompositionMode g p cm"]
    setters_same(2) [of g "setBlendEquation g p be"]
    setters_same(3) [of "setClipRect p cr"]
    setters_same(4) [of "setAlphaWriting p aw"]
    setters_same(5) [of g "setTexture g p t"]
    setters_same(6) [of g "setResolution g p res"]
  by (simp_all add: setCompositionMode_stored setBlendEquation_stored setClipRect_stored
      setAlphaWriting_stored setTexture_frame(7) setResolution_stored)

text \<open>The GPU calls that two calls in a row with the same value add to the log are those of
  at most one update: one blend-function call for the composition mode, one blend-equation
  call, the two scissor calls of one clip update, one color-mask call, one texture binding,
  one viewport call; and none at all when the value was already stored.\<close>

lemma setters_issue_once:
  "\<exists>cs. gl_calls (setCompositionMode g (setCompositionMode g p cm) cm) = gl_calls p @ cs \<and>
        length cs = (if m_compositionMode p = cm then 0 else 1)"
  "\<exists>cs. gl_calls (setBlendEquation g (setBlendEquation g p be) be) = gl_calls p @ cs \<and>
        length cs = (if m_blendEquation p \<noteq> be \<and> canUseBlendEquation g then 1 else 0)"
  "\<exists>cs. gl_calls (setClipRect (setClipRect p cr) cr) = gl_calls p @ cs \<and>
        length cs = (if m_clipRect p = cr then 0 else 2)"
  "\<exists>cs. gl_calls (setAlphaWriting (setAlphaWriting p aw) aw) = gl_calls p @ cs \<and>
        length cs = (if m_alphaWriting p = aw then 0 else 1)"
  "\<exists>cs. gl_calls (setTexture g (setTexture g p t) t) = gl_calls p @ cs \<and> length cs \<le> 1"
  "\<exists>cs. gl_calls (setResolution g (setResolution g p res) res) = gl_calls p @ cs \<and>
        length cs = (if res \<noteq> m_resolution p \<and> g_painter_is_this g then 1 else 0)"
proof -
  show "\<exists>cs. gl_calls (setCompositionMode g (setCompositionMode g p cm) cm) = gl_calls p @ cs \<and>
        length cs = (if m_compositionMode p = cm then 0 else 1)"
    unfolding setters_twice
    by (simp add: setCompositionMode_def updateGlCompositionMode_def gl_def
        split: CompositionMode.splits)
  show "\<exists>cs. gl_calls (setBlendEquation g (setBlendEquation g p be) be) = gl_calls p @ cs \<and>
        length cs = (if m_blendEquation p \<noteq> be \<and> canUseBlendEquation g then 1 else 0)"
    unfolding setters_twice
    by (cases be) (simp_all add: setBlendEquation_def updateGlBlendEquation_def gl_def)
  show "\<exists>cs. gl_calls (setClipRect (setClipRect p cr) cr) = gl_calls p @ cs \<and>
        length cs = (if m_clipRect p = cr then 0 else 2)"
    unfolding setters_twice
    by (simp add: setClipRect_def updateGlClipRect_def gl_def)
  show "\<exists>cs. gl_calls (setAlphaWriting (setAlphaWriting p aw) aw) = gl_calls p @ cs \<and>
        length cs = (if m_alphaWriting p = aw then 0 else 1)"
    unfolding setters_twice
    by (simp add: setAlphaWriting_def updateGlAlphaWriting_def gl_def)
  show "\<exists>cs. gl_calls (setTexture g (setTexture g p t) t) = gl_calls p @ cs \<and> length cs \<le> 1"
    unfolding setters_twice
    by (simp add: setTexture_def updateGlTexture_def setTextureMatrix_def gl_def Let_def
        split: option.splits)
  show "\<exists>cs. gl_calls (setResolution g (setResolution g p res) res) = gl_calls p @ cs \<and>
        length cs = (if res \<noteq> m_resolution p \<and> g_painter_is_this g then 1 else 0)"
    unfolding setters_twice
    by (simp add: setResolution_def updateGlViewport_def setProjectionMatrix_def gl_def Let_def)
qed

text \<open>Claim C7. For each of the six setters: called with the value already stored it returns
  the painter unchanged, the log of GPU calls included (first six lines); called twice in a
  row with the same value, the second call changes nothing (next six lines); after a call
  the stored value is the argument (next six lines); and the two calls together extend the
  log of GPU calls by the calls of at most one update, namely by exactly one blend-function
  call when the composition mode changes and by none when it does not, and likewise for
  the other setters (last six lines).\<close>

theorem setters_memoized:
  "setCompositionMode g p (m_compositionMode p) = p \<and>
   setBlendEquation g p (m_blendEquation p) = p \<and>
   setClipRect p (m_clipRect p) = p \<and>
   setAlphaWriting p (m_alphaWriting p) = p \<and>
   setTexture g p (m_texture p) = p \<and>
   setResolution g p (m_resolution p) = p \<and>
   setCompositionMode g (setCompositionMode g p cm) cm = setCompositionMode g p cm \<and>
   setBlendEquation g (setBlendEquation g p be) be = setBlendEquation g p be \<and>
   setClipRect (setClipRect p cr) cr = setClipRect p cr \<and>
   setAlphaWriting (setAlphaWriting p aw) aw = setAlphaWriting p aw \<and>
   setTexture g (setTexture g p t) t = setTexture g p t \<and>
   setResolution g (setResolution g p res) res = setResolution g p res \<and>
   m_compositionMode (setCompositionMode g p cm) = cm \<and>
   m_blendEquation (setBlendEquation g p be) = be \<and>
   m_clipRect (setClipRect p cr) = cr \<and>
   m_alphaWriting (setAlphaWriting p aw) = aw \<and>
   m_texture (setTexture g p t) = t \<and>
   m_resolution (setResolution g p res) = res \<and>
   (\<exists>cs. gl_calls (setCompositionMode g (setCompositionMode g p cm) cm) = gl_calls p @ cs \<and>
         length cs = (if m_compositionMode p = cm then 0 else 1)) \<and>
   (\<exists>cs. gl_calls (setBlendEquation g (setBlendEquation g p be) be) = gl_calls p @ cs \<and>
         length cs = (if m_blendEquation p \<noteq> be \<and> canUseBlendEquation g then 1 else 0)) \<and>
   (\<exists>cs. gl_calls (setClipRect (setClipRect p cr) cr) = gl_calls p @ cs \<and>
         length cs = (if m_clipRect p = cr then 0 else 2)) \<and>
   (\<exists>cs. gl_calls (setAlphaWriting (setAlphaWriting p aw) aw) = gl_calls p @ cs \<and>
         length cs = (if m_alphaWriting p = aw then 0 else 1)) \<and>
   (\<exists>cs. gl_calls (setTexture g (setTexture g p t) t) = gl_calls p @ cs \<and> length cs \<le> 1) \<and>
   (\<exists>cs. gl_calls (setResolution g (setResolution g p res) res) = gl_calls p @ cs \<and>
         length cs = (if res \<noteq> m_resolution p \<and> g_painter_is_this g then 1 else 0))"
  by (intro conjI setters_same setters_twice setCompositionMode_stored setBlendEquation_stored
      setClipRect_stored setAlphaWriting_stored setTexture_frame(7) setResolution_stored
      setters_issue_once)

text \<open>Claim C8. For a resolution different from the stored one, \<open>setResolution\<close> sets the
  projection matrix to the rows (2/w, 0, 0), (0, -2/h, 0), (-1, 1, 1), the two quotients
  being float divisions; a second call with the same resolution, and a call with the
  resolution already stored, change nothing.\<close>

theorem setResolution_projection:
  assumes "res \<noteq> m_resolution p"
  shows "m_projectionMatrix (setResolution g p res) =
           Matrix3 (fdiv (Float 2) (float_of_int (width res))) (Float 0) (Float 0)
                   (Float 0) (fdiv (Float (- 2)) (float_of_int (height res))) (Float 0)
                   (Float (- 1)) (Float 1) (Float 1) \<and>
         setResolution g (setResolution g p res) res = setResolution g p res \<and>
         setResolution g p (m_resolution p) = p"
  using assms
  by (simp add: setters_same setters_twice)
     (simp add: setResolution_def updateGlViewport_def setProjectionMatrix_def Let_def)

text \<open>The example painter holds the projection of its 800 x 600 window; set to 1024 x 768
  it holds the rows (1/512, 0, 0), (0, -1/384, 0), (-1, 1, 1).\<close>

theorem setResolution_projection_witness:
  "\<lparr>width = 1024, height = 768\<rparr> \<noteq> m_resolution example_painter \<and>
   m_projectionMatrix (setResolution example_graphics example_painter \<lparr>width = 1024, height = 768\<rparr>) =
     Matrix3 (Float (1 / 512)) (Float 0) (Float 0)
             (Float 0) (Float (- 1 / 384)) (Float 0)
             (Float (- 1)) (Float 1) (Float 1) \<and>
   m_projectionMatrix example_painter =
     Matrix3 (Float (1 / 400)) (Float 0) (Float 0)
             (Float 0) (Float (- 1 / 300)) (Float 0)
             (Float (- 1)) (Float 1) (Float 1)"
proof -
  have ne: "\<lparr>width = 1024, height = 768\<rparr> \<noteq> m_resolution example_painter"
    by (simp add: example_painter_fields)
  have "m_projectionMatrix example_painter =
     Matrix3 (Float (1 / 400)) (Float 0) (Float 0)
             (Float 0) (Float (- 1 / 300)) (Float 0)
             (Float (- 1)) (Float 1) (Float 1)"
    by (simp add: example_painter_def PainterOGL_def setResolution_def example_members_def
      example_graphics_def setProjectionMatrix_def updateGlViewport_def gl_def Let_def
      float_of_int_def)
  with ne setResolution_projection [OF ne, of example_graphics]
  show ?thesis by (simp add: float_of_int_def)
qed

text \<open>Claim C10. \<open>clearRect\<close> leaves the clip rect as it was before the call, and the painter
  after the call differs from the painter before it in nothing but the log of GPU calls.\<close>

theorem clearRect_frame:
  "m_clipRect (clearRect p c rect) = m_clipRect p \<and>
   (clearRect p c rect)\<lparr>gl_calls := gl_calls p\<rparr> = p"
  by (simp add: clearRect_def setClipRect_def updateGlClipRect_def gl_def Let_def)

end
